theory Spec2Isabelle
  imports Complex_Main "HOL-Library.Signed_Division"
begin

section \<open>Dates and time zones\<close>

text \<open>
  A JavaScript \<open>Date\<close> holds one number, its time value: the milliseconds since
  1970-01-01T00:00Z. The getters \<open>getFullYear\<close>, \<open>getMonth\<close>, \<open>getDate\<close>, the
  setter \<open>setDate\<close> and the constructor \<open>new Date(y, m, d)\<close> work on local time,
  which the host's time zone derives from the time value; \<open>new Date(string)\<close> on a
  date-only string and \<open>toISOString\<close> work in UTC. The time zone is therefore a
  parameter of every function of \<open>App.js\<close> that touches a calendar field.

  Time values are modelled as \<open>int\<close>. The dates of the application are far inside the
  range of time values (8.64e15 ms on either side of the epoch), where the double
  arithmetic of \<open>d - a\<close> and of the division by the milliseconds of a day is exact
  enough for \<open>Math.floor\<close> to return the floor of the exact quotient.
\<close>

type_synonym timevalue = int

definition msPerDay :: int where
  "msPerDay = 1000 * 60 * 60 * 24"

definition Day :: "int \<Rightarrow> int" where
  "Day t = t div msPerDay"

definition TimeWithinDay :: "int \<Rightarrow> int" where
  "TimeWithinDay t = t mod msPerDay"

text \<open>
  The two offsets of ECMA-262: \<open>utcOffset z t\<close> is the offset of local time from UTC
  at the time value \<open>t\<close>, and \<open>localOffset z t\<close> is the offset used to read the local
  time \<open>t\<close> back as a time value.
\<close>

record zone =
  utcOffset :: "int \<Rightarrow> int"
  localOffset :: "int \<Rightarrow> int"

definition LocalTime :: "zone \<Rightarrow> timevalue \<Rightarrow> int" where
  "LocalTime z t = t + utcOffset z t"

definition UTC :: "zone \<Rightarrow> int \<Rightarrow> timevalue" where
  "UTC z t = t - localOffset z t"

text \<open>
  The calendar of ECMA-262 on day numbers. \<open>dayFromCivil y m d\<close> is the day number,
  counted from 1970-01-01, of a date of the proleptic Gregorian calendar (months 1 to
  12), and \<open>yearMonthFromDay\<close> gives the year and the month (0 to 11) in which a day
  number falls. As in ECMA-262, the day of the month is the distance from the first
  day of that month, and \<open>MakeDay\<close> counts days on from the first day of the month it
  is given, so a day of the month below 1 or past the end of the month rolls into the
  months around it.
\<close>

definition dayFromCivil :: "int \<Rightarrow> int \<Rightarrow> int \<Rightarrow> int" where
  "dayFromCivil y m d =
     (let y' = (if m \<le> 2 then y - 1 else y);
          era = y' div 400;
          yoe = y' - era * 400;
          doy = (153 * (if m > 2 then m - 3 else m + 9) + 2) div 5 + d - 1;
          doe = yoe * 365 + yoe div 4 - yoe div 100 + doy
      in era * 146097 + doe - 719468)"

definition yearMonthFromDay :: "int \<Rightarrow> int \<times> int" where
  "yearMonthFromDay n =
     (let z = n + 719468;
          era = z div 146097;
          doe = z - era * 146097;
          yoe = (doe - doe div 1460 + doe div 36524 - doe div 146096) div 365;
          doy = doe - (365 * yoe + yoe div 4 - yoe div 100);
          mp = (5 * doy + 2) div 153;
          m = (if mp < 10 then mp + 3 else mp - 9)
      in (yoe + era * 400 + (if m \<le> 2 then 1 else 0), m - 1))"

definition YearFromTime :: "int \<Rightarrow> int" where
  "YearFromTime t = fst (yearMonthFromDay (Day t))"

definition MonthFromTime :: "int \<Rightarrow> int" where
  "MonthFromTime t = snd (yearMonthFromDay (Day t))"

definition firstOfMonth :: "int \<Rightarrow> int \<Rightarrow> int" where
  "firstOfMonth y m = dayFromCivil (y + m div 12) (m mod 12 + 1) 1"

definition DateFromTime :: "int \<Rightarrow> int" where
  "DateFromTime t = Day t - firstOfMonth (YearFromTime t) (MonthFromTime t) + 1"

definition MakeDay :: "int \<Rightarrow> int \<Rightarrow> int \<Rightarrow> int" where
  "MakeDay y m dt = firstOfMonth y m + dt - 1"

text \<open>The getters read the local time.\<close>

definition getFullYear :: "zone \<Rightarrow> timevalue \<Rightarrow> int" where
  "getFullYear z t = YearFromTime (LocalTime z t)"

definition getMonth :: "zone \<Rightarrow> timevalue \<Rightarrow> int" where
  "getMonth z t = MonthFromTime (LocalTime z t)"

definition getDate :: "zone \<Rightarrow> timevalue \<Rightarrow> int" where
  "getDate z t = DateFromTime (LocalTime z t)"

text \<open>
  \<open>new Date(y, m, dt)\<close>: local midnight of the day that \<open>MakeDay\<close> gives. The
  constructor reads a year from 0 to 99 as 1900 to 1999.
\<close>

definition MakeFullYear :: "int \<Rightarrow> int" where
  "MakeFullYear y = (if 0 \<le> y \<and> y \<le> 99 then 1900 + y else y)"

definition newDate :: "zone \<Rightarrow> int \<Rightarrow> int \<Rightarrow> int \<Rightarrow> timevalue" where
  "newDate z y m dt = UTC z (MakeDay (MakeFullYear y) m dt * msPerDay)"

text \<open>
  \<open>x.setDate(dt)\<close>: the day \<open>dt\<close> of the local month of \<open>x\<close>, at the local time of day
  of \<open>x\<close>.
\<close>

definition setDate :: "zone \<Rightarrow> timevalue \<Rightarrow> int \<Rightarrow> timevalue" where
  "setDate z x dt =
     UTC z (MakeDay (getFullYear z x) (getMonth z x) dt * msPerDay
            + TimeWithinDay (LocalTime z x))"

section \<open>The period calculator\<close>

record period =
  pstart :: timevalue
  pend :: timevalue

text \<open>
  \<open>new Date(date.getFullYear(), date.getMonth(), date.getDate())\<close>, the first two
  lines of \<open>getPeriodForDate\<close>.
\<close>

definition newDateYMD :: "zone \<Rightarrow> timevalue \<Rightarrow> timevalue" where
  "newDateYMD z date = newDate z (getFullYear z date) (getMonth z date) (getDate z date)"

text \<open>\<open>Math.floor((d - a) / (1000 * 60 * 60 * 24))\<close> on the two dates so built.\<close>

definition diffDays :: "zone \<Rightarrow> timevalue \<Rightarrow> timevalue \<Rightarrow> int" where
  "diffDays z date anchorDate =
     (newDateYMD z date - newDateYMD z anchorDate) div msPerDay"

text \<open>
  \<open>((diffDays % 14) + 14) % 14\<close>: the remainder \<open>%\<close> of JavaScript takes the sign of
  the dividend, which on integers is \<open>smod\<close>.
\<close>

definition keepPositive :: "int \<Rightarrow> int" where
  "keepPositive n = ((n smod 14) + 14) smod 14"

definition offset :: "zone \<Rightarrow> timevalue \<Rightarrow> timevalue \<Rightarrow> int" where
  "offset z date anchorDate = keepPositive (diffDays z date anchorDate)"

definition getPeriodForDate :: "zone \<Rightarrow> timevalue \<Rightarrow> timevalue \<Rightarrow> period" where
  "getPeriodForDate z date anchorDate =
     (let d = newDateYMD z date;
          start = setDate z d (getDate z d - offset z date anchorDate);
          end_date = setDate z start (getDate z start + 13)
      in \<lparr>pstart = start, pend = end_date\<rparr>)"

definition addDays :: "zone \<Rightarrow> timevalue \<Rightarrow> int \<Rightarrow> timevalue" where
  "addDays z date days = setDate z date (getDate z date + days)"

text \<open>
  The local calendar day of a time value. The local midnight of day \<open>n\<close> exists when
  the time value built for it reads back as that midnight: no clock change skips it.
\<close>

definition localDay :: "zone \<Rightarrow> timevalue \<Rightarrow> int" where
  "localDay z t = Day (LocalTime z t)"

definition midnightExists :: "zone \<Rightarrow> int \<Rightarrow> bool" where
  "midnightExists z n = (LocalTime z (UTC z (n * msPerDay)) = n * msPerDay)"

text \<open>
  A date whose local year is one of 0 to 99: \<open>new Date(y, m, d)\<close> takes such a year
  for a year of the twentieth century.
\<close>

definition twoDigitYear :: "zone \<Rightarrow> timevalue \<Rightarrow> bool" where
  "twoDigitYear z t = (0 \<le> getFullYear z t \<and> getFullYear z t \<le> 99)"

text \<open>
  Calendar dates for the examples: the time value of midnight UTC on a date (what
  \<open>new Date("YYYY-MM-DD")\<close> yields) and of local midnight on it (what
  \<open>new Date(y, m - 1, d)\<close> yields for a year past 99).
\<close>

definition utcDate :: "int \<Rightarrow> int \<Rightarrow> int \<Rightarrow> timevalue" where
  "utcDate y m d = dayFromCivil y m d * msPerDay"

definition localDate :: "zone \<Rightarrow> int \<Rightarrow> int \<Rightarrow> int \<Rightarrow> timevalue" where
  "localDate z y m d = UTC z (dayFromCivil y m d * msPerDay)"

text \<open>
  Three zones. \<open>fixedZone off\<close> never changes its offset (\<open>fixedZone 0\<close> is UTC).
  \<open>eastern\<close> is North American Eastern time (America/Toronto, America/New_York) as
  it ran between 2023-11-05T06:00Z and 2025-03-09T07:00Z: five hours behind UTC, four
  hours behind between 2024-03-10T07:00Z and 2024-11-03T06:00Z. \<open>cairo\<close> is
  Africa/Cairo as it ran between 2023-10-26T21:00Z and 2025-04-24T22:00Z: two hours
  ahead of UTC, three hours ahead between 2024-04-25T22:00Z and 2024-10-31T21:00Z, so
  its clocks went from 24:00 on 2024-04-25 straight to 01:00 on 2024-04-26. A local
  time skipped or repeated by a clock change is read with the offset before the
  change.
\<close>

definition fixedZone :: "int \<Rightarrow> zone" where
  "fixedZone off = \<lparr>utcOffset = (\<lambda>t. off), localOffset = (\<lambda>t. off)\<rparr>"

definition eastern :: zone where
  "eastern =
     \<lparr>utcOffset = (\<lambda>t. if 1710054000000 \<le> t \<and> t < 1730613600000
                         then - 14400000 else - 18000000),
      localOffset = (\<lambda>t. if 1710039600000 \<le> t \<and> t < 1730599200000
                           then - 14400000 else - 18000000)\<rparr>"

definition cairo :: zone where
  "cairo =
     \<lparr>utcOffset = (\<lambda>t. if 1714082400000 \<le> t \<and> t < 1730408400000
                         then 10800000 else 7200000),
      localOffset = (\<lambda>t. if 1714093200000 \<le> t \<and> t < 1730419200000
                           then 10800000 else 7200000)\<rparr>"

section \<open>JavaScript values\<close>

text \<open>
  A number is a double: a finite value, held as the rational it denotes, an infinity
  or NaN. (The negative zero is not told from zero.) \<open>roundToDouble\<close> is the
  rounding of IEEE 754 binary64 to the nearest double, ties to even: a value at or
  past the midpoint between the largest double and \<open>2 ^ 1024\<close> becomes an infinity,
  a value below \<open>2 ^ -1022\<close> is rounded to a multiple of \<open>2 ^ -1074\<close>, and any other
  value to 53 significant bits.
\<close>

datatype jsnum = Num rat | PosInfinity | NegInfinity | NaN

function bitLength :: "int \<Rightarrow> int" where
  "bitLength n = (if n \<le> 0 then 0 else 1 + bitLength (n div 2))"
  by pat_completeness auto
termination
  by (relation "measure nat") auto

declare bitLength.simps [simp del]

definition floorLog2 :: "rat \<Rightarrow> int" where
  "floorLog2 x =
     (if 1 \<le> x then bitLength (floor x) - 1 else - bitLength (ceiling (1 / x) - 1))"

definition roundHalfEven :: "rat \<Rightarrow> int" where
  "roundHalfEven y =
     (let f = floor y; d = y - of_int f
      in if d < 1 / 2 then f else if 1 / 2 < d then f + 1 else if even f then f else f + 1)"

definition pow2 :: "int \<Rightarrow> rat" where
  "pow2 k = (if 0 \<le> k then 2 ^ nat k else 1 / 2 ^ nat (- k))"

definition roundToDouble :: "rat \<Rightarrow> jsnum" where
  "roundToDouble x =
     (if x = 0 then Num 0
      else if pow2 1024 - pow2 970 \<le> \<bar>x\<bar> then (if x < 0 then NegInfinity else PosInfinity)
      else
        let e = (if \<bar>x\<bar> < pow2 (- 1022) then - 1022 else floorLog2 \<bar>x\<bar>);
            q = pow2 (e - 52);
            r = of_int (roundHalfEven (\<bar>x\<bar> / q)) * q
        in Num (if x < 0 then - r else r))"

text \<open>\<open>x + y\<close> on numbers: the exact sum of two finite values, rounded.\<close>

fun jsAdd :: "jsnum \<Rightarrow> jsnum \<Rightarrow> jsnum" where
  "jsAdd NaN y = NaN"
| "jsAdd x NaN = NaN"
| "jsAdd PosInfinity NegInfinity = NaN"
| "jsAdd NegInfinity PosInfinity = NaN"
| "jsAdd PosInfinity y = PosInfinity"
| "jsAdd x PosInfinity = PosInfinity"
| "jsAdd NegInfinity y = NegInfinity"
| "jsAdd x NegInfinity = NegInfinity"
| "jsAdd (Num a) (Num b) = roundToDouble (a + b)"

fun jsNeg :: "jsnum \<Rightarrow> jsnum" where
  "jsNeg (Num a) = Num (- a)"
| "jsNeg PosInfinity = NegInfinity"
| "jsNeg NegInfinity = PosInfinity"
| "jsNeg NaN = NaN"

text \<open>\<open>x - y\<close> is \<open>x + (-y)\<close>, in doubles as in the rationals.\<close>

definition jsSub :: "jsnum \<Rightarrow> jsnum \<Rightarrow> jsnum" where
  "jsSub x y = jsAdd x (jsNeg y)"

text \<open>
  The values that \<open>JSON.parse\<close> builds and that the fields of stored objects hold,
  with \<open>undefined\<close> for a missing property. An object is the list of its properties.
\<close>

datatype jsval =
    JUndefined
  | JNull
  | JBoolean bool
  | JNumber jsnum
  | JString string
  | JArray "jsval list"
  | JObject "(string \<times> jsval) list"


text \<open>
  \<open>v.name\<close> and \<open>v?.name\<close> for a property name that is neither an index nor
  \<open>length\<close>, as \<open>id\<close> and \<open>anchorISO\<close> are: only an object has such a property of
  its own. (On \<open>null\<close> and \<open>undefined\<close> the plain \<open>v.name\<close> throws; where the
  value may be one of them, the source reads it through \<open>?.\<close>.)
\<close>

fun getProp :: "jsval \<Rightarrow> string \<Rightarrow> jsval" where
  "getProp (JObject kvs) name = (case map_of kvs name of None \<Rightarrow> JUndefined | Some v \<Rightarrow> v)"
| "getProp v name = JUndefined"

text \<open>
  \<open>String(v)\<close>, which also makes the property key of \<open>obj[v]\<close>. The text of a number
  is left to the platform (\<open>ns\<close>).
\<close>

fun joinWith :: "string \<Rightarrow> string list \<Rightarrow> string" where
  "joinWith sep [] = []"
| "joinWith sep [x] = x"
| "joinWith sep (x # y # ys) = x @ sep @ joinWith sep (y # ys)"

fun toStringJS :: "(jsnum \<Rightarrow> string) \<Rightarrow> jsval \<Rightarrow> string" where
  "toStringJS ns JUndefined = ''undefined''"
| "toStringJS ns JNull = ''null''"
| "toStringJS ns (JBoolean b) = (if b then ''true'' else ''false'')"
| "toStringJS ns (JNumber n) = ns n"
| "toStringJS ns (JString s) = s"
| "toStringJS ns (JArray xs) =
     joinWith '',''
       (map (\<lambda>x. if x = JUndefined \<or> x = JNull then [] else toStringJS ns x) xs)"
| "toStringJS ns (JObject kvs) = ''[object Object]''"

subsection \<open>\<open>Number(v)\<close>\<close>

text \<open>
  The numeric value of a string (\<open>StringToNumber\<close> of ECMA-262): white space is
  trimmed, the empty string is 0, then a binary, octal or hexadecimal integer, or a
  signed decimal literal or \<open>Infinity\<close>, each rounded to a double; anything else is
  NaN. Strings are modelled over the code units below 256.
\<close>

definition isWhiteSpace :: "char \<Rightarrow> bool" where
  "isWhiteSpace c = (of_char c \<in> {9, 10, 11, 12, 13, 32, 160 :: nat})"

definition trimString :: "string \<Rightarrow> string" where
  "trimString s = rev (dropWhile isWhiteSpace (rev (dropWhile isWhiteSpace s)))"

definition isDigit :: "char \<Rightarrow> bool" where
  "isDigit c = (48 \<le> (of_char c :: nat) \<and> (of_char c :: nat) \<le> 57)"

definition digitValue :: "char \<Rightarrow> nat option" where
  "digitValue c =
     (let n = of_char c :: nat
      in if 48 \<le> n \<and> n \<le> 57 then Some (n - 48)
         else if 97 \<le> n \<and> n \<le> 122 then Some (n - 87)
         else if 65 \<le> n \<and> n \<le> 90 then Some (n - 55)
         else None)"

fun digitsIn :: "nat \<Rightarrow> nat \<Rightarrow> string \<Rightarrow> nat option" where
  "digitsIn b acc [] = Some acc"
| "digitsIn b acc (c # cs) =
     (case digitValue c of
        None \<Rightarrow> None
      | Some v \<Rightarrow> if v < b then digitsIn b (acc * b + v) cs else None)"

definition digitsValue :: "nat \<Rightarrow> string \<Rightarrow> nat option" where
  "digitsValue b s = (if s = [] then None else digitsIn b 0 s)"

definition pow10 :: "int \<Rightarrow> rat" where
  "pow10 k = (if 0 \<le> k then 10 ^ nat k else 1 / 10 ^ nat (- k))"

definition exponentPart :: "string \<Rightarrow> int option" where
  "exponentPart s =
     (case s of
        [] \<Rightarrow> Some 0
      | c # t \<Rightarrow>
          if c = CHR ''e'' \<or> c = CHR ''E'' then
            (case t of
               [] \<Rightarrow> None
             | sg # u \<Rightarrow>
                 if sg = CHR ''+'' then map_option int (digitsValue 10 u)
                 else if sg = CHR ''-'' then map_option (\<lambda>n. - int n) (digitsValue 10 u)
                 else map_option int (digitsValue 10 t))
          else None)"

definition strUnsignedDecimalLiteral :: "string \<Rightarrow> jsnum option" where
  "strUnsignedDecimalLiteral s =
     (if s = ''Infinity'' then Some PosInfinity
      else
        let ip = takeWhile isDigit s;
            r1 = dropWhile isDigit s;
            fp = (case r1 of [] \<Rightarrow> [] | c # t \<Rightarrow> if c = CHR ''.'' then takeWhile isDigit t else []);
            r2 = (case r1 of [] \<Rightarrow> [] | c # t \<Rightarrow> if c = CHR ''.'' then dropWhile isDigit t else r1)
        in if ip = [] \<and> fp = [] then None
           else (case (digitsIn 10 0 (ip @ fp), exponentPart r2) of
                   (Some m, Some e) \<Rightarrow>
                     Some (roundToDouble (of_nat m * pow10 (e - int (length fp))))
                 | _ \<Rightarrow> None))"

definition strDecimalLiteral :: "string \<Rightarrow> jsnum option" where
  "strDecimalLiteral s =
     (case s of
        [] \<Rightarrow> None
      | c # t \<Rightarrow>
          if c = CHR ''+'' then strUnsignedDecimalLiteral t
          else if c = CHR ''-'' then map_option jsNeg (strUnsignedDecimalLiteral t)
          else strUnsignedDecimalLiteral s)"

definition nonDecimalIntegerLiteral :: "string \<Rightarrow> nat option" where
  "nonDecimalIntegerLiteral s =
     (case s of
        z # x # t \<Rightarrow>
          if z \<noteq> CHR ''0'' then None
          else if x = CHR ''x'' \<or> x = CHR ''X'' then digitsValue 16 t
          else if x = CHR ''o'' \<or> x = CHR ''O'' then digitsValue 8 t
          else if x = CHR ''b'' \<or> x = CHR ''B'' then digitsValue 2 t
          else None
      | _ \<Rightarrow> None)"

definition StringToNumber :: "string \<Rightarrow> jsnum" where
  "StringToNumber s =
     (let t = trimString s
      in if t = [] then Num 0
         else (case nonDecimalIntegerLiteral t of
                 Some n \<Rightarrow> roundToDouble (of_nat n)
               | None \<Rightarrow> (case strDecimalLiteral t of Some v \<Rightarrow> v | None \<Rightarrow> NaN)))"

text \<open>
  \<open>Number(v)\<close>. An object becomes the string \<open>[object Object]\<close> first and an array
  the texts of its elements joined by commas, so an object is NaN, the empty array is
  0, an array of two or more elements is NaN (no number has a comma), and an array of
  one element has the number of that element's text, which for a number is the number
  itself.
\<close>

fun toNumber :: "jsval \<Rightarrow> jsnum" where
  "toNumber JUndefined = NaN"
| "toNumber JNull = Num 0"
| "toNumber (JBoolean b) = (if b then Num 1 else Num 0)"
| "toNumber (JNumber n) = n"
| "toNumber (JString s) = StringToNumber s"
| "toNumber (JObject kvs) = NaN"
| "toNumber (JArray []) = Num 0"
| "toNumber (JArray [JUndefined]) = Num 0"
| "toNumber (JArray [JNull]) = Num 0"
| "toNumber (JArray [JBoolean b]) = NaN"
| "toNumber (JArray [JNumber n]) = n"
| "toNumber (JArray [JString s]) = StringToNumber s"
| "toNumber (JArray [JObject kvs]) = NaN"
| "toNumber (JArray [JArray xs]) = toNumber (JArray xs)"
| "toNumber (JArray (x # y # ys)) = NaN"

section \<open>The ledger\<close>

text \<open>
  An entry as \<open>EntryForm\<close> builds it; \<open>label\<close> stands for the one field that depends
  on the kind (\<open>source\<close>, \<open>category\<close>, \<open>goal\<close> or \<open>note\<close>). The amount is any value:
  the form stores a number, an imported backup may hold anything.
\<close>

record entry =
  entry_id :: string
  date :: string
  amount :: jsval
  who :: string
  whoName :: string
  label :: string

text \<open>
  The four kinds side by side: \<open>tracker.data\<close> and the result of
  \<open>filterEntriesByPeriod\<close> hold a list of entries for each, the result of
  \<open>calcTotals\<close> a number for each.
\<close>

record 'a byKind =
  income :: 'a
  expenses :: 'a
  savings :: 'a
  emergency :: 'a

text \<open>
  \<open>parseISO\<close>. \<open>dateParse\<close> is the platform's \<open>Date.parse\<close> (\<open>None\<close> for an invalid
  date, whose time value is NaN) and \<open>now\<close> is the time value that \<open>new Date()\<close> reads
  from the clock, taken as one value for the whole of a filtering pass.
\<close>

definition parseISO :: "(string \<Rightarrow> timevalue option) \<Rightarrow> timevalue \<Rightarrow> string \<Rightarrow> timevalue" where
  "parseISO dateParse now dateStr =
     (case dateParse dateStr of None \<Rightarrow> now | Some d \<Rightarrow> d)"

definition inRange ::
  "(string \<Rightarrow> timevalue option) \<Rightarrow> timevalue \<Rightarrow> period \<Rightarrow> string \<Rightarrow> bool" where
  "inRange dateParse now p isoStr =
     (let d = parseISO dateParse now isoStr in d \<ge> pstart p \<and> d \<le> pend p)"

definition filterEntriesByPeriod ::
  "(string \<Rightarrow> timevalue option) \<Rightarrow> timevalue \<Rightarrow> entry list byKind \<Rightarrow> period
     \<Rightarrow> entry list byKind" where
  "filterEntriesByPeriod dateParse now data p =
     \<lparr>income = filter (\<lambda>e. inRange dateParse now p (date e)) (income data),
      expenses = filter (\<lambda>e. inRange dateParse now p (date e)) (expenses data),
      savings = filter (\<lambda>e. inRange dateParse now p (date e)) (savings data),
      emergency = filter (\<lambda>e. inRange dateParse now p (date e)) (emergency data)\<rparr>"

text \<open>\<open>n || 0\<close> on a number: 0 and NaN are the falsy numbers.\<close>

definition orZero :: "jsnum \<Rightarrow> jsnum" where
  "orZero n = (if n = Num 0 \<or> n = NaN then Num 0 else n)"

text \<open>\<open>arr.reduce((a, b) => a + (Number(b.amount) || 0), 0)\<close>\<close>

definition sumAmounts :: "entry list \<Rightarrow> jsnum" where
  "sumAmounts arr = foldl (\<lambda>a b. jsAdd a (orZero (toNumber (amount b)))) (Num 0) arr"

definition calcTotals :: "entry list byKind \<Rightarrow> jsnum byKind" where
  "calcTotals periodEntries =
     \<lparr>income = sumAmounts (income periodEntries),
      expenses = sumAmounts (expenses periodEntries),
      savings = sumAmounts (savings periodEntries),
      emergency = sumAmounts (emergency periodEntries)\<rparr>"

text \<open>
  \<open>fmtMoney\<close>; \<open>toLocale\<close> is the platform's \<open>toLocaleString\<close> with the currency
  options of the source.
\<close>

definition fmtMoney :: "(jsnum \<Rightarrow> string) \<Rightarrow> jsnum \<Rightarrow> string" where
  "fmtMoney toLocale n = (if n = NaN then ''$0.00'' else toLocale n)"

text \<open>
  The spending money: the expression
  \<open>totals.income - totals.expenses - totals.savings - totals.emergency\<close>, which
  \<open>Dashboard\<close> and \<open>ReportView\<close> each hand to \<open>fmtMoney\<close>.
\<close>

definition spendingMoney :: "jsnum byKind \<Rightarrow> jsnum" where
  "spendingMoney totals =
     jsSub (jsSub (jsSub (income totals) (expenses totals)) (savings totals)) (emergency totals)"

definition dashboardSpendingMoney :: "(jsnum \<Rightarrow> string) \<Rightarrow> jsnum byKind \<Rightarrow> string" where
  "dashboardSpendingMoney toLocale totals = fmtMoney toLocale (spendingMoney totals)"

definition reportSpendingMoney :: "(jsnum \<Rightarrow> string) \<Rightarrow> jsnum byKind \<Rightarrow> string" where
  "reportSpendingMoney toLocale totals = fmtMoney toLocale (spendingMoney totals)"

section \<open>The store and the backup\<close>

datatype exn = SyntaxError | SecurityError | BadFile

text \<open>
  \<open>localStorage\<close>: either the browser refuses access, and \<open>getItem\<close> throws, or it
  maps keys to strings, and \<open>getItem\<close> returns null for a missing key.
\<close>

datatype storage = Refused | Items "string \<Rightarrow> string option"

fun getItem :: "storage \<Rightarrow> string \<Rightarrow> exn + string option" where
  "getItem Refused key = Inl SecurityError"
| "getItem (Items m) key = Inr (m key)"

text \<open>\<open>JSON.parse\<close> is a parameter; \<open>None\<close> is the SyntaxError it throws.\<close>

type_synonym jsonParser = "string \<Rightarrow> jsval option"

text \<open>The body of the \<open>try\<close> of \<open>load\<close>, then \<open>load\<close> with its \<open>catch\<close>.\<close>

definition loadTry :: "jsonParser \<Rightarrow> storage \<Rightarrow> string \<Rightarrow> jsval \<Rightarrow> exn + jsval" where
  "loadTry parseJSON store key fallback =
     (case getItem store key of
        Inl e \<Rightarrow> Inl e
      | Inr raw \<Rightarrow>
          (case raw of
             None \<Rightarrow> Inr fallback
           | Some s \<Rightarrow>
               if s = [] then Inr fallback
               else (case parseJSON s of None \<Rightarrow> Inl SyntaxError | Some v \<Rightarrow> Inr v)))"

definition load :: "jsonParser \<Rightarrow> storage \<Rightarrow> string \<Rightarrow> jsval \<Rightarrow> exn + jsval" where
  "load parseJSON store key fallback =
     (case loadTry parseJSON store key fallback of
        Inl e \<Rightarrow> Inr fallback
      | Inr v \<Rightarrow> Inr v)"

text \<open>
  The state \<open>trackers\<close> is an object from family codes to trackers. \<open>handleImport\<close>
  returns the state it leaves and the text it alerts, if any. \<open>file\<close> is the text
  of the chosen file, \<open>None\<close> when no file was chosen.
\<close>

type_synonym trackers = "string \<Rightarrow> jsval option"





section \<open>Setting the payday start\<close>

text \<open>
  The regular expression of the source, \<open>/^\\d{4}-\\d{2}-\\d{2}$/\<close>, read as
  JavaScript reads it: between the anchors \<open>^\<close> and \<open>$\<close> a sequence of atoms, each
  repeated a fixed number of times. \<open>\\\<close> is the escaped backslash, an atom that
  matches one backslash, and the \<open>d\<close> after it is the letter d, the atom that
  \<open>{4}\<close> and \<open>{2}\<close> repeat. \<open>DigitClass\<close> is the atom \<open>\d\<close>, which the source does
  not use.
\<close>

datatype atom = Lit char | DigitClass

fun atomMatches :: "atom \<Rightarrow> char \<Rightarrow> bool" where
  "atomMatches (Lit a) c = (a = c)"
| "atomMatches DigitClass c = isDigit c"

fun matchWhole :: "(atom \<times> nat) list \<Rightarrow> string \<Rightarrow> bool" where
  "matchWhole [] s = (s = [])"
| "matchWhole ((a, n) # rest) s =
     (n \<le> length s \<and> list_all (atomMatches a) (take n s) \<and> matchWhole rest (drop n s))"

definition backslash :: char where
  "backslash = CHR 0x5C"

definition paydayRegex :: "(atom \<times> nat) list" where
  "paydayRegex =
     [(Lit backslash, 1), (Lit CHR ''d'', 4), (Lit CHR ''-'', 1),
      (Lit backslash, 1), (Lit CHR ''d'', 2), (Lit CHR ''-'', 1),
      (Lit backslash, 1), (Lit CHR ''d'', 2)]"

text \<open>
  \<open>{...a, ...b}\<close> on property lists: a property of \<open>b\<close> replaces the one of the same
  name or is added at the end. The spread of \<open>undefined\<close> adds nothing. (The spread
  of a string or an array would copy its elements; no path of the source stores one
  as a tracker.)
\<close>

fun setProp :: "string \<Rightarrow> jsval \<Rightarrow> (string \<times> jsval) list \<Rightarrow> (string \<times> jsval) list" where
  "setProp k v [] = [(k, v)]"
| "setProp k v (p # ps) = (if fst p = k then (k, v) # ps else p # setProp k v ps)"

fun ownProps :: "jsval option \<Rightarrow> (string \<times> jsval) list" where
  "ownProps (Some (JObject kvs)) = kvs"
| "ownProps v = []"

definition updateTracker ::
  "(jsnum \<Rightarrow> string) \<Rightarrow> trackers \<Rightarrow> jsval \<Rightarrow> (string \<times> jsval) list \<Rightarrow> trackers" where
  "updateTracker ns trackers tracker patch =
     (let key = toStringJS ns (getProp tracker ''id'');
          next = foldl (\<lambda>obj kv. setProp (fst kv) (snd kv) obj) (ownProps (trackers key)) patch
      in trackers(key \<mapsto> JObject next))"

text \<open>
  The click handler of "Set Payday Start". \<open>answer\<close> is what \<open>prompt\<close> returns: the
  text typed, or null when the dialog is cancelled.
\<close>

definition setPaydayStart ::
  "(jsnum \<Rightarrow> string) \<Rightarrow> trackers \<Rightarrow> jsval \<Rightarrow> string option \<Rightarrow> trackers" where
  "setPaydayStart ns trackers tracker answer =
     (let isoStr = (case answer of
                      None \<Rightarrow> getProp tracker ''anchorISO''
                    | Some s \<Rightarrow> if s = [] then getProp tracker ''anchorISO'' else JString s)
      in if matchWhole paydayRegex (toStringJS ns isoStr)
         then updateTracker ns trackers tracker [(''anchorISO'', isoStr)]
         else trackers)"

text \<open>The shape that the prompt asks for: four digits, two digits, two digits.\<close>

definition wellFormedDate :: "string \<Rightarrow> bool" where
  "wellFormedDate s =
     matchWhole [(DigitClass, 4), (Lit CHR ''-'', 1), (DigitClass, 2), (Lit CHR ''-'', 1),
                 (DigitClass, 2)] s"

section \<open>What the totals add up to\<close>



section \<open>Values for the examples\<close>

text \<open>
  \<open>Date.parse\<close> on the date-only form \<open>YYYY-MM-DD\<close>, which it reads as midnight
  UTC of that date. The examples use it on dates of the calendar and on text that no
  date format accepts; on anything else it stands for no real parser.
\<close>

definition daysInMonth :: "int \<Rightarrow> int \<Rightarrow> int" where
  "daysInMonth y m =
     (if m = 2 then (if y mod 4 = 0 \<and> (y mod 100 \<noteq> 0 \<or> y mod 400 = 0) then 29 else 28)
      else if m = 4 \<or> m = 6 \<or> m = 9 \<or> m = 11 then 30
      else 31)"

definition dateOnlyParse :: "string \<Rightarrow> timevalue option" where
  "dateOnlyParse s =
     (if wellFormedDate s then
        (case (digitsIn 10 0 (take 4 s), digitsIn 10 0 (take 2 (drop 5 s)),
               digitsIn 10 0 (take 2 (drop 8 s))) of
           (Some y, Some m, Some d) \<Rightarrow>
             if 1 \<le> m \<and> m \<le> 12 \<and> 1 \<le> d \<and> int d \<le> daysInMonth (int y) (int m)
             then Some (utcDate (int y) (int m) (int d))
             else None
         | _ \<Rightarrow> None)
      else None)"

definition sampleEntry :: "string \<Rightarrow> jsval \<Rightarrow> entry" where
  "sampleEntry dateStr amt =
     \<lparr>entry_id = ''k3x9'', date = dateStr, amount = amt, who = ''mom@example.com'',
      whoName = ''Mom'', label = ''Pay''\<rparr>"

text \<open>
  The text of a number, for the examples: right on zero, NaN and the infinities, the
  only numbers whose text the examples need.
\<close>

definition exampleNumberText :: "jsnum \<Rightarrow> string" where
  "exampleNumberText n =
     (case n of
        NaN \<Rightarrow> ''NaN''
      | PosInfinity \<Rightarrow> ''Infinity''
      | NegInfinity \<Rightarrow> ''-Infinity''
      | Num r \<Rightarrow> if r = 0 then ''0'' else ''?'')"

text \<open>
  \<open>JSON.parse\<close> for the examples: the three backups below parse to the objects they
  write, and the one other text the examples use, \<open>{oops\<close>, is no JSON.
\<close>

definition exampleParseJSON :: jsonParser where
  \<open>exampleParseJSON text =
     (if text = ''{"id":"fam2","name":"Backup"}''
        then Some (JObject [(''id'', JString ''fam2''), (''name'', JString ''Backup'')])
      else if text = ''{"name":"Backup"}''
        then Some (JObject [(''name'', JString ''Backup'')])
      else if text = ''{"id":0,"name":"Backup"}''
        then Some (JObject [(''id'', JNumber (Num 0)), (''name'', JString ''Backup'')])
      else None)\<close>

definition exampleTracker :: jsval where
  "exampleTracker =
     JObject [(''id'', JString ''fam1''), (''name'', JString ''My Family Budget''),
              (''anchorISO'', JString ''2024-01-01''), (''members'', JArray [])]"

definition exampleTrackers :: trackers where
  "exampleTrackers = [''fam1'' \<mapsto> exampleTracker]"

section \<open>Properties of the period calculator\<close>

lemma keepPositive_mod: "keepPositive n = n mod 14"
  unfolding keepPositive_def
  by (auto simp: smod_int_alt_def sgn_if zmod_zminus1_eq_if split: if_splits)

lemma aligned_start: "((x::int) - (x - y) mod 14 - y) mod 14 = 0"
proof -
  have "x - (x - y) mod 14 - y = 14 * ((x - y) div 14)"
    using minus_mod_eq_mult_div[of "x - y" 14] by simp
  then show ?thesis by simp
qed

lemma aligned_next: "((x::int) + 14 - y) mod 14 = (x - y) mod 14"
  by (metis diff_add_eq mod_add_self2)

lemma aligned_previous: "((s::int) - y) mod 14 = 0 \<Longrightarrow> (s - 1 - y) mod 14 = 13"
proof -
  assume "(s - y) mod 14 = 0"
  then obtain q where "s - y = 14 * q" by auto
  then have "s - 1 - y = 13 + 14 * (q - 1)" by (simp add: algebra_simps)
  then have "(s - 1 - y) mod 14 = (13 + 14 * (q - 1)) mod 14" by (rule arg_cong)
  also have "\<dots> = 13" by (simp only: mod_mult_self2) simp
  finally show ?thesis .
qed

lemma Day_midnight: "Day (n * msPerDay) = n"
  by (simp add: Day_def msPerDay_def)

lemma TimeWithinDay_midnight: "TimeWithinDay (n * msPerDay) = 0"
  by (simp add: TimeWithinDay_def)

text \<open>
  The day of the month that \<open>getDate\<close> reads and the day that \<open>MakeDay\<close> builds are
  counted from the same first day of the month, so setting the date to \<open>getDate\<close>
  plus \<open>k\<close> moves the local day by \<open>k\<close>, through the ends of months and years.
\<close>

lemma MakeDay_getDate:
  "MakeDay (getFullYear z x) (getMonth z x) (getDate z x + k) = localDay z x + k"
  by (simp add: MakeDay_def getDate_def DateFromTime_def getFullYear_def getMonth_def
      localDay_def)

lemma setDate_getDate:
  "setDate z x (getDate z x + k)
     = UTC z ((localDay z x + k) * msPerDay + TimeWithinDay (LocalTime z x))"
  by (simp add: setDate_def MakeDay_getDate)

lemma setDate_getDate_minus:
  "setDate z x (getDate z x - k)
     = UTC z ((localDay z x - k) * msPerDay + TimeWithinDay (LocalTime z x))"
  using setDate_getDate[of z x "- k"] by simp

lemma getPeriodForDate_days:
  "getPeriodForDate z t a =
     (let d = newDateYMD z t;
          start = UTC z ((localDay z d - offset z t a) * msPerDay
                         + TimeWithinDay (LocalTime z d));
          end_date = UTC z ((localDay z start + 13) * msPerDay
                            + TimeWithinDay (LocalTime z start))
      in \<lparr>pstart = start, pend = end_date\<rparr>)"
  by (simp add: getPeriodForDate_def Let_def setDate_getDate setDate_getDate_minus)

lemma addDays_days:
  "addDays z t k = UTC z ((localDay z t + k) * msPerDay + TimeWithinDay (LocalTime z t))"
  by (simp add: addDays_def setDate_getDate)

lemma newDateYMD_cases:
  "newDateYMD z t =
     (if twoDigitYear z t
      then newDate z (1900 + getFullYear z t) (getMonth z t) (getDate z t)
      else UTC z (localDay z t * msPerDay))"
  using MakeDay_getDate[of z t 0]
  by (auto simp: newDateYMD_def newDate_def MakeFullYear_def twoDigitYear_def)

lemma newDateYMD_plain:
  assumes "\<not> twoDigitYear z t"
  shows "newDateYMD z t = UTC z (localDay z t * msPerDay)"
  using assms by (simp add: newDateYMD_cases)

lemma local_newDateYMD:
  assumes "\<not> twoDigitYear z t" and "midnightExists z (localDay z t)"
  shows "LocalTime z (newDateYMD z t) = localDay z t * msPerDay"
  using assms(2) by (simp add: newDateYMD_plain[OF assms(1)] midnightExists_def)

lemma local_setDate_midnight:
  assumes "midnightExists z (n + k)" and "LocalTime z x = n * msPerDay"
  shows "LocalTime z (setDate z x (getDate z x + k)) = (n + k) * msPerDay"
  using assms
  by (simp add: setDate_getDate localDay_def Day_midnight TimeWithinDay_midnight
      midnightExists_def)

lemma local_pstart:
  assumes "\<not> twoDigitYear z d" and "midnightExists z (localDay z d)"
    and "midnightExists z (localDay z d - offset z d a)"
  shows "LocalTime z (pstart (getPeriodForDate z d a))
           = (localDay z d - offset z d a) * msPerDay"
  using local_setDate_midnight[of z "localDay z d" "- offset z d a" "newDateYMD z d"]
    local_newDateYMD[OF assms(1,2)] assms(3)
  by (simp add: getPeriodForDate_def Let_def)

lemma local_pend:
  assumes "\<not> twoDigitYear z d" and "midnightExists z (localDay z d)"
    and "midnightExists z (localDay z d - offset z d a)"
    and "midnightExists z (localDay z d - offset z d a + 13)"
  shows "LocalTime z (pend (getPeriodForDate z d a))
           = (localDay z d - offset z d a + 13) * msPerDay"
proof -
  have "pend (getPeriodForDate z d a)
          = setDate z (pstart (getPeriodForDate z d a))
              (getDate z (pstart (getPeriodForDate z d a)) + 13)"
    by (simp add: getPeriodForDate_def Let_def)
  then show ?thesis
    using local_setDate_midnight[OF assms(4) local_pstart[OF assms(1,2,3)]] by simp
qed

lemma offset_range: "0 \<le> offset z d a \<and> offset z d a \<le> 13"
  by (simp add: offset_def keepPositive_mod)

lemma midnightExists_fixedZone: "midnightExists (fixedZone off) n"
  by (simp add: midnightExists_def LocalTime_def UTC_def fixedZone_def)

lemma diffDays_same_offset:
  assumes "\<not> twoDigitYear z d" and "\<not> twoDigitYear z a"
    and "localOffset z (localDay z d * msPerDay) = localOffset z (localDay z a * msPerDay)"
  shows "diffDays z d a = localDay z d - localDay z a"
proof -
  have "newDateYMD z d - newDateYMD z a = (localDay z d - localDay z a) * msPerDay"
    using assms(3)
    by (simp add: newDateYMD_plain[OF assms(1)] newDateYMD_plain[OF assms(2)] UTC_def
        algebra_simps)
  then show ?thesis
    by (simp add: diffDays_def msPerDay_def)
qed

lemmas period_eval =
  getPeriodForDate_days addDays_days newDateYMD_cases newDate_def MakeFullYear_def
  MakeDay_def firstOfMonth_def twoDigitYear_def getFullYear_def getMonth_def getDate_def
  YearFromTime_def MonthFromTime_def DateFromTime_def yearMonthFromDay_def dayFromCivil_def
  localDate_def utcDate_def eastern_def cairo_def fixedZone_def offset_def diffDays_def
  localDay_def keepPositive_def midnightExists_def UTC_def LocalTime_def Day_def
  TimeWithinDay_def msPerDay_def smod_int_alt_def Let_def

text \<open>
  C1, as stated, fails where a clock change skips a local midnight. In Cairo the
  clocks went from 24:00 on 2024-04-25 to 01:00 on 2024-04-26. With the anchor string
  2024-04-19 and the reference date at noon on 2024-04-26, the window starts at 01:00
  on 2024-04-19 and ends at 01:00 on 2024-05-02: the time of day is not stripped.
\<close>

theorem skipped_midnight_counterexample:
  "getPeriodForDate cairo (localDate cairo 2024 4 26 + 39600000) (utcDate 2024 4 19)
     = \<lparr>pstart = localDate cairo 2024 4 19 + 3600000,
        pend = localDate cairo 2024 5 2 + 3600000\<rparr>
   \<and> TimeWithinDay (LocalTime cairo (pstart (getPeriodForDate cairo
        (localDate cairo 2024 4 26 + 39600000) (utcDate 2024 4 19)))) = 3600000
   \<and> TimeWithinDay (LocalTime cairo (pend (getPeriodForDate cairo
        (localDate cairo 2024 4 26 + 39600000) (utcDate 2024 4 19)))) = 3600000"
  by (simp add: period_eval cong: let_weak_cong)

text \<open>
  The constructor also moves a reference date of the years 0 to 99 into the twentieth
  century: for a date in the year 50 the window lies in 1950, and the reference date
  is not in it.
\<close>

lemma two_digit_year_window:
  "getPeriodForDate (fixedZone 0) (utcDate 50 3 15) (utcDate 50 3 1)
     = \<lparr>pstart = utcDate 1950 3 15, pend = utcDate 1950 3 28\<rparr>
   \<and> utcDate 50 3 15 < utcDate 1950 3 15"
  by (simp add: period_eval cong: let_weak_cong)

text \<open>
  C1, amended. For every anchor, and every reference date that is not in the years 0
  to 99 and for which the local midnights of its own day and of the first and the last
  day of the window exist, the window returned by \<open>getPeriodForDate\<close> starts and ends
  at a local midnight (the time of day is stripped), the end is 13 calendar days after
  the start (14 consecutive days), and the calendar day of the reference date lies
  between the two, ends included.
\<close>

theorem period_window:
  assumes "\<not> twoDigitYear z d"
    and "midnightExists z (localDay z d)"
    and "midnightExists z (localDay z d - offset z d a)"
    and "midnightExists z (localDay z d - offset z d a + 13)"
  shows "TimeWithinDay (LocalTime z (pstart (getPeriodForDate z d a))) = 0
       \<and> TimeWithinDay (LocalTime z (pend (getPeriodForDate z d a))) = 0
       \<and> localDay z (pend (getPeriodForDate z d a))
           - localDay z (pstart (getPeriodForDate z d a)) = 13
       \<and> localDay z (pstart (getPeriodForDate z d a)) \<le> localDay z d
       \<and> localDay z d \<le> localDay z (pend (getPeriodForDate z d a))"
  using offset_range[of z d a]
  by (simp add: local_pstart[OF assms(1,2,3)] local_pend[OF assms] localDay_def Day_midnight
      TimeWithinDay_midnight)

theorem period_window_witness:
  "\<not> twoDigitYear eastern (localDate eastern 2024 3 9 + 39600000)
   \<and> midnightExists eastern (localDay eastern (localDate eastern 2024 3 9 + 39600000))
   \<and> midnightExists eastern (localDay eastern (localDate eastern 2024 3 9 + 39600000)
        - offset eastern (localDate eastern 2024 3 9 + 39600000) (localDate eastern 2024 1 1))
   \<and> midnightExists eastern (localDay eastern (localDate eastern 2024 3 9 + 39600000)
        - offset eastern (localDate eastern 2024 3 9 + 39600000) (localDate eastern 2024 1 1)
        + 13)
   \<and> TimeWithinDay (LocalTime eastern (pstart (getPeriodForDate eastern
         (localDate eastern 2024 3 9 + 39600000) (localDate eastern 2024 1 1)))) = 0
   \<and> TimeWithinDay (LocalTime eastern (pend (getPeriodForDate eastern
         (localDate eastern 2024 3 9 + 39600000) (localDate eastern 2024 1 1)))) = 0
   \<and> localDay eastern (pend (getPeriodForDate eastern
         (localDate eastern 2024 3 9 + 39600000) (localDate eastern 2024 1 1)))
       - localDay eastern (pstart (getPeriodForDate eastern
         (localDate eastern 2024 3 9 + 39600000) (localDate eastern 2024 1 1))) = 13
   \<and> localDay eastern (pstart (getPeriodForDate eastern
         (localDate eastern 2024 3 9 + 39600000) (localDate eastern 2024 1 1)))
       \<le> localDay eastern (localDate eastern 2024 3 9 + 39600000)
   \<and> localDay eastern (localDate eastern 2024 3 9 + 39600000)
       \<le> localDay eastern (pend (getPeriodForDate eastern
         (localDate eastern 2024 3 9 + 39600000) (localDate eastern 2024 1 1)))
   \<and> pstart (getPeriodForDate eastern
         (localDate eastern 2024 3 9 + 39600000) (localDate eastern 2024 1 1))
       = localDate eastern 2024 2 26
   \<and> pend (getPeriodForDate eastern
         (localDate eastern 2024 3 9 + 39600000) (localDate eastern 2024 1 1))
       = localDate eastern 2024 3 10"
proof -
  have y: "\<not> twoDigitYear eastern (localDate eastern 2024 3 9 + 39600000)"
    by (simp add: period_eval cong: let_weak_cong)
  have m1: "midnightExists eastern (localDay eastern (localDate eastern 2024 3 9 + 39600000))"
    by (simp add: period_eval cong: let_weak_cong)
  have m2: "midnightExists eastern (localDay eastern (localDate eastern 2024 3 9 + 39600000)
        - offset eastern (localDate eastern 2024 3 9 + 39600000) (localDate eastern 2024 1 1))"
    by (simp add: period_eval cong: let_weak_cong)
  have m3: "midnightExists eastern (localDay eastern (localDate eastern 2024 3 9 + 39600000)
        - offset eastern (localDate eastern 2024 3 9 + 39600000) (localDate eastern 2024 1 1)
        + 13)"
    by (simp add: period_eval cong: let_weak_cong)
  have s: "pstart (getPeriodForDate eastern
          (localDate eastern 2024 3 9 + 39600000) (localDate eastern 2024 1 1))
          = localDate eastern 2024 2 26"
    by (simp add: period_eval cong: let_weak_cong)
  have e: "pend (getPeriodForDate eastern
          (localDate eastern 2024 3 9 + 39600000) (localDate eastern 2024 1 1))
          = localDate eastern 2024 3 10"
    by (simp add: period_eval cong: let_weak_cong)
  from period_window[OF y m1 m2 m3] y m1 m2 m3 s e
  show ?thesis by blast
qed

text \<open>
  C2, as stated, fails: the offset is not always below 13. With the anchor on
  2024-01-01 and the reference date on 2024-01-14, in UTC, the offset is 13.
\<close>

theorem offset_range_counterexample:
  "\<not> (0 \<le> offset (fixedZone 0) (utcDate 2024 1 14) (utcDate 2024 1 1)
      \<and> offset (fixedZone 0) (utcDate 2024 1 14) (utcDate 2024 1 1) < 13)"
  by (simp add: period_eval cong: let_weak_cong)

text \<open>
  An anchor of the years 0 to 99 is moved into the twentieth century as well, and the
  windows are aligned on the moved anchor: with the anchor string 0050-01-01 the
  windows are counted from 1950-01-01, and the start of the window of 2024-01-10 is 8
  days, not 0, past a multiple of 14 days from the anchor.
\<close>

lemma two_digit_year_anchor:
  "newDateYMD (fixedZone 0) (utcDate 50 1 1) = utcDate 1950 1 1
   \<and> pstart (getPeriodForDate (fixedZone 0) (utcDate 2024 1 10) (utcDate 50 1 1))
       = utcDate 2024 1 7
   \<and> (localDay (fixedZone 0)
         (pstart (getPeriodForDate (fixedZone 0) (utcDate 2024 1 10) (utcDate 50 1 1)))
       - localDay (fixedZone 0) (utcDate 50 1 1)) mod 14 = 8"
  by (simp add: period_eval cong: let_weak_cong)

text \<open>
  C2, amended. The offset taken from the reference date is the floored modulo by 14
  of \<open>diffDays\<close>, never a truncating one, and lies between 0 and 13, ends included.
  Where neither the reference date nor the anchor is in the years 0 to 99 and the
  local midnights of their two days have the same offset from UTC, \<open>diffDays\<close> is
  the signed difference of the two calendar days; where moreover the local midnights
  of the day of the reference date and of the first day of the window exist, the start
  of the window is a multiple of 14 days away from the anchor, also when the reference
  date is before the anchor.
\<close>

theorem offset_floored_modulo:
  "offset z d a = diffDays z d a mod 14
   \<and> 0 \<le> offset z d a \<and> offset z d a \<le> 13
   \<and> (\<not> twoDigitYear z d \<and> \<not> twoDigitYear z a
        \<and> localOffset z (localDay z d * msPerDay) = localOffset z (localDay z a * msPerDay)
      \<longrightarrow> diffDays z d a = localDay z d - localDay z a
        \<and> (midnightExists z (localDay z d) \<and> midnightExists z (localDay z d - offset z d a)
           \<longrightarrow> (localDay z (pstart (getPeriodForDate z d a)) - localDay z a) mod 14 = 0))"
proof -
  have o: "offset z d a = diffDays z d a mod 14"
    by (simp add: offset_def keepPositive_mod)
  have al: "(localDay z (pstart (getPeriodForDate z d a)) - localDay z a) mod 14 = 0"
    if plain: "\<not> twoDigitYear z d" "\<not> twoDigitYear z a"
      and same: "localOffset z (localDay z d * msPerDay)
                   = localOffset z (localDay z a * msPerDay)"
      and mid: "midnightExists z (localDay z d)"
        "midnightExists z (localDay z d - offset z d a)"
  proof -
    have dd: "diffDays z d a = localDay z d - localDay z a"
      by (rule diffDays_same_offset[OF plain same])
    have s: "localDay z (pstart (getPeriodForDate z d a)) = localDay z d - offset z d a"
      by (simp add: localDay_def local_pstart[OF plain(1) mid] Day_midnight)
    show ?thesis
      unfolding s o dd by (rule aligned_start)
  qed
  show ?thesis
    using o offset_range[of z d a] diffDays_same_offset[of z d a] al by blast
qed

theorem offset_floored_modulo_witness:
  "\<not> twoDigitYear eastern (localDate eastern 2023 12 20)
   \<and> \<not> twoDigitYear eastern (localDate eastern 2024 1 1)
   \<and> localOffset eastern (localDay eastern (localDate eastern 2023 12 20) * msPerDay)
       = localOffset eastern (localDay eastern (localDate eastern 2024 1 1) * msPerDay)
   \<and> midnightExists eastern (localDay eastern (localDate eastern 2023 12 20))
   \<and> midnightExists eastern (localDay eastern (localDate eastern 2023 12 20)
        - offset eastern (localDate eastern 2023 12 20) (localDate eastern 2024 1 1))
   \<and> diffDays eastern (localDate eastern 2023 12 20) (localDate eastern 2024 1 1) = - 12
   \<and> offset eastern (localDate eastern 2023 12 20) (localDate eastern 2024 1 1) = 2
   \<and> (localDay eastern (pstart (getPeriodForDate eastern (localDate eastern 2023 12 20)
          (localDate eastern 2024 1 1))) - localDay eastern (localDate eastern 2024 1 1)) mod 14 = 0
   \<and> pstart (getPeriodForDate eastern (localDate eastern 2023 12 20) (localDate eastern 2024 1 1))
       = localDate eastern 2023 12 18"
proof -
  have y1: "\<not> twoDigitYear eastern (localDate eastern 2023 12 20)"
    by (simp add: period_eval cong: let_weak_cong)
  have y2: "\<not> twoDigitYear eastern (localDate eastern 2024 1 1)"
    by (simp add: period_eval cong: let_weak_cong)
  have same: "localOffset eastern (localDay eastern (localDate eastern 2023 12 20) * msPerDay)
       = localOffset eastern (localDay eastern (localDate eastern 2024 1 1) * msPerDay)"
    by (simp add: period_eval cong: let_weak_cong)
  have m1: "midnightExists eastern (localDay eastern (localDate eastern 2023 12 20))"
    by (simp add: period_eval cong: let_weak_cong)
  have m2: "midnightExists eastern (localDay eastern (localDate eastern 2023 12 20)
        - offset eastern (localDate eastern 2023 12 20) (localDate eastern 2024 1 1))"
    by (simp add: period_eval cong: let_weak_cong)
  have dd: "diffDays eastern (localDate eastern 2023 12 20) (localDate eastern 2024 1 1) = - 12"
    by (simp add: period_eval cong: let_weak_cong)
  have st: "pstart (getPeriodForDate eastern (localDate eastern 2023 12 20) (localDate eastern 2024 1 1))
       = localDate eastern 2023 12 18"
    by (simp add: period_eval cong: let_weak_cong)
  from offset_floored_modulo[of eastern "localDate eastern 2023 12 20"
      "localDate eastern 2024 1 1"] y1 y2 same m1 m2 dd st
  show ?thesis by simp
qed

text \<open>
  Where the zone never changes its offset and no date is in the years 0 to 99, the
  windows tile: the window of the date 14 days later starts the day after this one
  ends, "Next" shows the window that starts there, and "Previous" the window that ends
  the day before this one starts.
\<close>

lemma fixed_offset:
  assumes "\<not> twoDigitYear (fixedZone off) d" and "\<not> twoDigitYear (fixedZone off) a"
  shows "offset (fixedZone off) d a
           = (localDay (fixedZone off) d - localDay (fixedZone off) a) mod 14"
proof -
  have "diffDays (fixedZone off) d a = localDay (fixedZone off) d - localDay (fixedZone off) a"
    by (rule diffDays_same_offset[OF assms]) (simp add: fixedZone_def)
  then show ?thesis
    by (simp add: offset_def keepPositive_mod)
qed

lemma fixed_pstart:
  assumes "\<not> twoDigitYear (fixedZone off) d" and "\<not> twoDigitYear (fixedZone off) a"
    and "s = localDay (fixedZone off) d
               - (localDay (fixedZone off) d - localDay (fixedZone off) a) mod 14"
  shows "pstart (getPeriodForDate (fixedZone off) d a) = s * msPerDay - off"
  using local_pstart[OF assms(1) midnightExists_fixedZone midnightExists_fixedZone, of a]
    fixed_offset[OF assms(1,2)] assms(3)
  by (simp add: LocalTime_def fixedZone_def)

lemma fixed_pend:
  assumes "\<not> twoDigitYear (fixedZone off) d" and "\<not> twoDigitYear (fixedZone off) a"
    and "s = localDay (fixedZone off) d
               - (localDay (fixedZone off) d - localDay (fixedZone off) a) mod 14"
  shows "pend (getPeriodForDate (fixedZone off) d a) = (s + 13) * msPerDay - off"
  using local_pend[OF assms(1) midnightExists_fixedZone midnightExists_fixedZone
      midnightExists_fixedZone, of a]
    fixed_offset[OF assms(1,2)] assms(3)
  by (simp add: LocalTime_def fixedZone_def)

lemma fixed_localDay_addDays:
  "localDay (fixedZone off) (addDays (fixedZone off) t k) = localDay (fixedZone off) t + k"
  by (simp add: addDays_days localDay_def LocalTime_def UTC_def fixedZone_def
      Day_def TimeWithinDay_def msPerDay_def)

lemma fixed_localDay_midnight: "localDay (fixedZone off) (n * msPerDay - off) = n"
  by (simp add: localDay_def LocalTime_def fixedZone_def Day_midnight)

lemma fixed_addDays_midnight:
  "addDays (fixedZone off) (n * msPerDay - off) k = (n + k) * msPerDay - off"
  by (simp add: addDays_days localDay_def LocalTime_def UTC_def fixedZone_def Day_midnight
      TimeWithinDay_midnight)

lemma fixedZone_tiling:
  fixes off d a :: int
  defines "z \<equiv> fixedZone off"
  defines "p \<equiv> getPeriodForDate z d a"
  assumes plain: "\<not> twoDigitYear z a" "\<not> twoDigitYear z d" "\<not> twoDigitYear z (addDays z d 14)"
    "\<not> twoDigitYear z (addDays z (pend p) 1)" "\<not> twoDigitYear z (addDays z (pstart p) (- 1))"
  shows "pstart (getPeriodForDate z (addDays z d 14) a) = addDays z (pend p) 1"
    and "pstart (getPeriodForDate z (addDays z (pend p) 1) a) = addDays z (pend p) 1"
    and "pend (getPeriodForDate z (addDays z (pstart p) (- 1)) a) = addDays z (pstart p) (- 1)"
proof -
  define x where "x = localDay z d"
  define y where "y = localDay z a"
  define s where "s = x - (x - y) mod 14"
  have ps: "pstart p = s * msPerDay - off"
    unfolding p_def z_def
    by (rule fixed_pstart) (use plain in \<open>simp_all add: s_def x_def y_def z_def\<close>)
  have pe: "pend p = (s + 13) * msPerDay - off"
    unfolding p_def z_def
    by (rule fixed_pend) (use plain in \<open>simp_all add: s_def x_def y_def z_def\<close>)
  have next_day: "addDays z (pend p) 1 = (s + 14) * msPerDay - off"
    unfolding pe z_def fixed_addDays_midnight by simp
  have prev_day: "addDays z (pstart p) (- 1) = (s - 1) * msPerDay - off"
    unfolding ps z_def fixed_addDays_midnight by simp
  have m0: "(s - y) mod 14 = 0"
    unfolding s_def by (rule aligned_start)
  have m1: "(s + 14 - y) mod 14 = 0"
    using m0 by (simp add: aligned_next)
  have m2: "(s - 1 - y) mod 14 = 13"
    using m0 by (rule aligned_previous)
  have "pstart (getPeriodForDate z (addDays z d 14) a) = (s + 14) * msPerDay - off"
    unfolding z_def
    by (rule fixed_pstart)
      (use plain in \<open>simp_all add: fixed_localDay_addDays aligned_next s_def x_def y_def z_def\<close>)
  then show "pstart (getPeriodForDate z (addDays z d 14) a) = addDays z (pend p) 1"
    by (simp only: next_day)
  have "pstart (getPeriodForDate z ((s + 14) * msPerDay - off) a) = (s + 14) * msPerDay - off"
    unfolding z_def
    by (rule fixed_pstart)
      (use plain(1,4) next_day in \<open>simp_all add: fixed_localDay_midnight m1[unfolded y_def z_def] z_def\<close>)
  then show "pstart (getPeriodForDate z (addDays z (pend p) 1) a) = addDays z (pend p) 1"
    by (simp only: next_day)
  have "pend (getPeriodForDate z ((s - 1) * msPerDay - off) a) = (s - 14 + 13) * msPerDay - off"
    unfolding z_def
    by (rule fixed_pend)
      (use plain(1,5) prev_day in \<open>simp_all add: fixed_localDay_midnight m2[unfolded y_def z_def] z_def\<close>)
  then show "pend (getPeriodForDate z (addDays z (pstart p) (- 1)) a) = addDays z (pstart p) (- 1)"
    by (simp add: prev_day)
qed

text \<open>
  C3 fails on the code where the clock changes. In Eastern time the clocks go forward
  on 2024-03-10. The anchor string is 2024-01-02, which \<open>parseISO\<close> reads as midnight
  UTC, the evening of 2024-01-01 in local time, so the anchor day is 2024-01-01. With
  the reference date at noon on 2024-03-09 the window is 2024-02-26 to 2024-03-10.
  "Next" moves the reference date to 2024-03-11: the two local midnights are 70 days
  less one hour apart, \<open>diffDays\<close> is 69, and the window is 2024-02-27 to 2024-03-11,
  which overlaps the one before. The window of the date 14 days after the reference
  date starts on 2024-03-12, not on 2024-03-11, the day after the first window ends.
\<close>

theorem next_period_across_clock_change:
  "newDateYMD eastern (utcDate 2024 1 2) = localDate eastern 2024 1 1
   \<and> getPeriodForDate eastern (localDate eastern 2024 3 9 + 43200000) (utcDate 2024 1 2)
     = \<lparr>pstart = localDate eastern 2024 2 26, pend = localDate eastern 2024 3 10\<rparr>
   \<and> addDays eastern (localDate eastern 2024 3 10) 1 = localDate eastern 2024 3 11
   \<and> diffDays eastern (localDate eastern 2024 3 11) (utcDate 2024 1 2) = 69
   \<and> localDay eastern (localDate eastern 2024 3 11) - localDay eastern (utcDate 2024 1 2) = 70
   \<and> getPeriodForDate eastern (addDays eastern (localDate eastern 2024 3 10) 1) (utcDate 2024 1 2)
     = \<lparr>pstart = localDate eastern 2024 2 27, pend = localDate eastern 2024 3 11\<rparr>
   \<and> pstart (getPeriodForDate eastern
        (addDays eastern (localDate eastern 2024 3 9 + 43200000) 14) (utcDate 2024 1 2))
     = localDate eastern 2024 3 12
   \<and> localDate eastern 2024 3 12 \<noteq> localDate eastern 2024 3 11"
  by (simp add: period_eval cong: let_weak_cong)

section \<open>Properties of the ledger\<close>

lemmas string_eval =
  StringToNumber_def trimString_def isWhiteSpace_def nonDecimalIntegerLiteral_def
  strDecimalLiteral_def strUnsignedDecimalLiteral_def exponentPart_def digitsValue_def
  digitValue_def isDigit_def pow10_def Let_def

lemmas date_eval =
  dateOnlyParse_def wellFormedDate_def isDigit_def digitValue_def utcDate_def
  dayFromCivil_def msPerDay_def daysInMonth_def

text \<open>
  What the filter does: in each of the four lists, and in their order, it keeps the
  entries for which the time value that \<open>parseISO\<close> reads from the date string is
  at or after the time value of the start of the window and at or before that of its
  end; the result for one kind depends on the list of that kind only.
\<close>

lemma filterEntriesByPeriod_time_values:
  "income (filterEntriesByPeriod dateParse now data p)
     = filter (\<lambda>e. pstart p \<le> parseISO dateParse now (date e)
                   \<and> parseISO dateParse now (date e) \<le> pend p) (income data)
   \<and> expenses (filterEntriesByPeriod dateParse now data p)
     = filter (\<lambda>e. pstart p \<le> parseISO dateParse now (date e)
                   \<and> parseISO dateParse now (date e) \<le> pend p) (expenses data)
   \<and> savings (filterEntriesByPeriod dateParse now data p)
     = filter (\<lambda>e. pstart p \<le> parseISO dateParse now (date e)
                   \<and> parseISO dateParse now (date e) \<le> pend p) (savings data)
   \<and> emergency (filterEntriesByPeriod dateParse now data p)
     = filter (\<lambda>e. pstart p \<le> parseISO dateParse now (date e)
                   \<and> parseISO dateParse now (date e) \<le> pend p) (emergency data)"
  by (simp add: filterEntriesByPeriod_def inRange_def Let_def)

text \<open>
  C4 fails on the code, on the windows that the program builds. The comparison is one
  of time values, not of calendar dates: the date string of an entry, which the form
  writes as \<open>YYYY-MM-DD\<close>, is read as midnight UTC of that date, while the bounds of a
  window of \<open>getPeriodForDate\<close> are the local midnights that begin its first and its
  last day. In Eastern time, with the anchor string 2024-01-02 and the view on
  2024-01-20, the window runs from 2024-01-15 to 2024-01-28; the window before it runs
  from 2024-01-01 to 2024-01-14. Of three incomes dated 2024-01-15, 2024-01-16 and
  2024-01-28, the window keeps the last two only: the income dated 2024-01-15, the
  first day of the window, is dropped from it, and the window before does not hold it
  either.
\<close>

theorem entry_on_first_day_dropped:
  "parseISO dateOnlyParse (localDate eastern 2024 1 20 + 43200000) ''2024-01-02''
     = utcDate 2024 1 2
   \<and> getPeriodForDate eastern (localDate eastern 2024 1 20 + 43200000) (utcDate 2024 1 2)
     = \<lparr>pstart = localDate eastern 2024 1 15, pend = localDate eastern 2024 1 28\<rparr>
   \<and> getPeriodForDate eastern (addDays eastern (localDate eastern 2024 1 15) (- 1))
        (utcDate 2024 1 2)
     = \<lparr>pstart = localDate eastern 2024 1 1, pend = localDate eastern 2024 1 14\<rparr>
   \<and> income (filterEntriesByPeriod dateOnlyParse (localDate eastern 2024 1 20 + 43200000)
        \<lparr>income = [sampleEntry ''2024-01-15'' (JNumber (Num 1)),
                   sampleEntry ''2024-01-16'' (JNumber (Num 2)),
                   sampleEntry ''2024-01-28'' (JNumber (Num 3))],
          expenses = [], savings = [], emergency = []\<rparr>
        \<lparr>pstart = localDate eastern 2024 1 15, pend = localDate eastern 2024 1 28\<rparr>)
     = [sampleEntry ''2024-01-16'' (JNumber (Num 2)),
        sampleEntry ''2024-01-28'' (JNumber (Num 3))]
   \<and> income (filterEntriesByPeriod dateOnlyParse (localDate eastern 2024 1 20 + 43200000)
        \<lparr>income = [sampleEntry ''2024-01-15'' (JNumber (Num 1)),
                   sampleEntry ''2024-01-16'' (JNumber (Num 2)),
                   sampleEntry ''2024-01-28'' (JNumber (Num 3))],
          expenses = [], savings = [], emergency = []\<rparr>
        \<lparr>pstart = localDate eastern 2024 1 1, pend = localDate eastern 2024 1 14\<rparr>)
     = []"
proof -
  have d: "parseISO dateOnlyParse now ''2024-01-02'' = utcDate 2024 1 2"
    "parseISO dateOnlyParse now ''2024-01-15'' = utcDate 2024 1 15"
    "parseISO dateOnlyParse now ''2024-01-16'' = utcDate 2024 1 16"
    "parseISO dateOnlyParse now ''2024-01-28'' = utcDate 2024 1 28" for now
    by (simp_all add: parseISO_def date_eval)
  have w: "getPeriodForDate eastern (localDate eastern 2024 1 20 + 43200000) (utcDate 2024 1 2)
     = \<lparr>pstart = localDate eastern 2024 1 15, pend = localDate eastern 2024 1 28\<rparr>"
    "getPeriodForDate eastern (addDays eastern (localDate eastern 2024 1 15) (- 1))
        (utcDate 2024 1 2)
     = \<lparr>pstart = localDate eastern 2024 1 1, pend = localDate eastern 2024 1 14\<rparr>"
    by (simp_all add: period_eval cong: let_weak_cong)
  have c: "\<not> localDate eastern 2024 1 15 \<le> utcDate 2024 1 15"
    "localDate eastern 2024 1 15 \<le> utcDate 2024 1 16"
    "utcDate 2024 1 16 \<le> localDate eastern 2024 1 28"
    "localDate eastern 2024 1 15 \<le> utcDate 2024 1 28"
    "utcDate 2024 1 28 \<le> localDate eastern 2024 1 28"
    "\<not> utcDate 2024 1 15 \<le> localDate eastern 2024 1 14"
    "\<not> utcDate 2024 1 16 \<le> localDate eastern 2024 1 14"
    "\<not> utcDate 2024 1 28 \<le> localDate eastern 2024 1 14"
    by (simp_all add: period_eval)
  show ?thesis
    unfolding d w
    by (simp add: filterEntriesByPeriod_def inRange_def sampleEntry_def d c)
qed

text \<open>
  East of UTC it is the last day of a window that is lost. Eight hours ahead of UTC,
  with the anchor string 2024-01-01 and the view on 2024-01-10, the window runs from
  2024-01-01 to 2024-01-14, and an entry dated 2024-01-14 is neither in it nor in the
  window after it.
\<close>

lemma entry_on_last_day_dropped:
  "getPeriodForDate (fixedZone 28800000) (localDate (fixedZone 28800000) 2024 1 10 + 43200000)
        (utcDate 2024 1 1)
     = \<lparr>pstart = localDate (fixedZone 28800000) 2024 1 1,
        pend = localDate (fixedZone 28800000) 2024 1 14\<rparr>
   \<and> getPeriodForDate (fixedZone 28800000)
        (addDays (fixedZone 28800000) (localDate (fixedZone 28800000) 2024 1 14) 1)
        (utcDate 2024 1 1)
     = \<lparr>pstart = localDate (fixedZone 28800000) 2024 1 15,
        pend = localDate (fixedZone 28800000) 2024 1 28\<rparr>
   \<and> \<not> inRange dateOnlyParse now
        \<lparr>pstart = localDate (fixedZone 28800000) 2024 1 1,
          pend = localDate (fixedZone 28800000) 2024 1 14\<rparr> ''2024-01-14''
   \<and> \<not> inRange dateOnlyParse now
        \<lparr>pstart = localDate (fixedZone 28800000) 2024 1 15,
          pend = localDate (fixedZone 28800000) 2024 1 28\<rparr> ''2024-01-14''"
proof -
  have d: "parseISO dateOnlyParse now ''2024-01-14'' = utcDate 2024 1 14"
    by (simp add: parseISO_def date_eval)
  show ?thesis
    unfolding inRange_def Let_def d
    by (simp add: period_eval cong: let_weak_cong)
qed

text \<open>
  What the fallback does: for an entry whose date string does not parse, \<open>parseISO\<close>
  returns the current moment, and the entry is in the filtered list of its kind
  exactly when it is in the list and the time value of the current moment is at or
  after that of the start of the window and at or before that of its end.
\<close>

lemma invalid_date_reads_now:
  assumes "dateParse (date e) = None"
  shows "parseISO dateParse now (date e) = now
       \<and> (e \<in> set (income (filterEntriesByPeriod dateParse now data p))
            \<longleftrightarrow> e \<in> set (income data) \<and> pstart p \<le> now \<and> now \<le> pend p)
       \<and> (e \<in> set (expenses (filterEntriesByPeriod dateParse now data p))
            \<longleftrightarrow> e \<in> set (expenses data) \<and> pstart p \<le> now \<and> now \<le> pend p)
       \<and> (e \<in> set (savings (filterEntriesByPeriod dateParse now data p))
            \<longleftrightarrow> e \<in> set (savings data) \<and> pstart p \<le> now \<and> now \<le> pend p)
       \<and> (e \<in> set (emergency (filterEntriesByPeriod dateParse now data p))
            \<longleftrightarrow> e \<in> set (emergency data) \<and> pstart p \<le> now \<and> now \<le> pend p)"
  using assms
  by (simp add: filterEntriesByPeriod_def inRange_def parseISO_def Let_def)

text \<open>
  C10 fails on the code during the last day of every window. The end of a window is
  the midnight that begins its last day, and the current moment is compared with it
  as a time value. In UTC, with the anchor string 2024-01-01, at noon on 2024-01-14
  the window of the current moment runs from 2024-01-01 to 2024-01-14: the day of the
  current moment is the last day of the window, yet an income whose date string does
  not parse is filtered out of it. It is not in the next window either, so at that
  moment no window shows it.
\<close>

theorem invalid_date_dropped_on_last_day:
  "dateOnlyParse ''someday'' = None
   \<and> parseISO dateOnlyParse (utcDate 2024 1 14 + 43200000) ''someday''
       = utcDate 2024 1 14 + 43200000
   \<and> getPeriodForDate (fixedZone 0) (utcDate 2024 1 14 + 43200000) (utcDate 2024 1 1)
       = \<lparr>pstart = utcDate 2024 1 1, pend = utcDate 2024 1 14\<rparr>
   \<and> localDay (fixedZone 0) (utcDate 2024 1 14 + 43200000)
       = localDay (fixedZone 0) (utcDate 2024 1 14)
   \<and> filterEntriesByPeriod dateOnlyParse (utcDate 2024 1 14 + 43200000)
        \<lparr>income = [sampleEntry ''someday'' (JNumber (Num 20))], expenses = [],
          savings = [], emergency = []\<rparr>
        (getPeriodForDate (fixedZone 0) (utcDate 2024 1 14 + 43200000) (utcDate 2024 1 1))
       = \<lparr>income = [], expenses = [], savings = [], emergency = []\<rparr>
   \<and> getPeriodForDate (fixedZone 0) (addDays (fixedZone 0) (utcDate 2024 1 14) 1)
        (utcDate 2024 1 1)
       = \<lparr>pstart = utcDate 2024 1 15, pend = utcDate 2024 1 28\<rparr>
   \<and> filterEntriesByPeriod dateOnlyParse (utcDate 2024 1 14 + 43200000)
        \<lparr>income = [sampleEntry ''someday'' (JNumber (Num 20))], expenses = [],
          savings = [], emergency = []\<rparr>
        \<lparr>pstart = utcDate 2024 1 15, pend = utcDate 2024 1 28\<rparr>
       = \<lparr>income = [], expenses = [], savings = [], emergency = []\<rparr>"
proof -
  have n: "dateOnlyParse ''someday'' = None"
    by (simp add: date_eval)
  have w: "getPeriodForDate (fixedZone 0) (utcDate 2024 1 14 + 43200000) (utcDate 2024 1 1)
       = \<lparr>pstart = utcDate 2024 1 1, pend = utcDate 2024 1 14\<rparr>"
    "getPeriodForDate (fixedZone 0) (addDays (fixedZone 0) (utcDate 2024 1 14) 1)
        (utcDate 2024 1 1)
       = \<lparr>pstart = utcDate 2024 1 15, pend = utcDate 2024 1 28\<rparr>"
    by (simp_all add: period_eval cong: let_weak_cong)
  have c: "localDay (fixedZone 0) (utcDate 2024 1 14 + 43200000)
       = localDay (fixedZone 0) (utcDate 2024 1 14)"
    "\<not> utcDate 2024 1 14 + 43200000 \<le> utcDate 2024 1 14"
    "\<not> utcDate 2024 1 15 \<le> utcDate 2024 1 14 + 43200000"
    by (simp_all add: period_eval)
  show ?thesis
    unfolding w
    by (simp add: filterEntriesByPeriod_def inRange_def parseISO_def sampleEntry_def n c)
qed

subsection \<open>Rounding\<close>






lemma pow2_nat: "pow2 (int n) = 2 ^ n"
  by (simp add: pow2_def)

lemma bitLength_nonneg: "0 \<le> bitLength n"
  by (induction n rule: bitLength.induct) (subst bitLength.simps, simp)




















lemma floor_rat_numeral: "\<lfloor>(numeral a :: rat) / numeral b\<rfloor> = numeral a div numeral b"
  by (metis floor_divide_of_int_eq of_int_numeral)

lemma ceiling_rat_numeral:
  "\<lceil>(numeral a :: rat) / numeral b\<rceil> = - (- numeral a div numeral b)"
  using floor_divide_of_int_eq[of "- numeral a" "numeral b", where ?'a = rat]
  by (simp add: ceiling_def)

lemmas round_eval =
  roundToDouble_def floorLog2_def roundHalfEven_def pow2_def bitLength.simps
  floor_rat_numeral ceiling_rat_numeral Let_def

subsection \<open>Totals\<close>

text \<open>
  The arithmetic is that of doubles: a tenth and a fifth add up to
  0.30000000000000004, and two numbers of the size of \<open>2 ^ 1023\<close> add up to
  Infinity.
\<close>

lemma double_addition_rounds:
  "roundToDouble (1 / 10) = Num (3602879701896397 / 36028797018963968)
   \<and> roundToDouble (2 / 10) = Num (3602879701896397 / 18014398509481984)
   \<and> jsAdd (Num (3602879701896397 / 36028797018963968))
            (Num (3602879701896397 / 18014398509481984))
       = Num (1351079888211149 / 4503599627370496)
   \<and> (3602879701896397 / 36028797018963968 + 3602879701896397 / 18014398509481984 :: rat)
       \<noteq> 1351079888211149 / 4503599627370496"
  by (simp add: round_eval)

lemma double_addition_overflows:
  "jsAdd (Num (2 ^ 1023)) (Num (2 ^ 1023)) = PosInfinity
   \<and> jsAdd (jsAdd (Num (2 ^ 1023)) (Num (2 ^ 1023))) NegInfinity = NaN"
  by (simp add: round_eval)

text \<open>
  The numeric value of a string is a double too: a decimal literal past the range of
  the doubles is Infinity, and one too small for them is 0.
\<close>

lemma exponent_out_of_range:
  "StringToNumber ''1e309'' = PosInfinity \<and> StringToNumber ''1e-400'' = Num 0"
  by (simp add: string_eval round_eval)










text \<open>
  The subtractions are those of doubles as well: for the totals 1000.1, 0.3, 0.2 and
  0.1 (the doubles nearest to them) the spending money is 999.5, which is not the
  exact difference of the four.
\<close>

lemma spendingMoney_rounds:
  "spendingMoney
     \<lparr>income = Num (8796972631510221 / 8796093022208),
      expenses = Num (5404319552844595 / 18014398509481984),
      savings = Num (3602879701896397 / 18014398509481984),
      emergency = Num (3602879701896397 / 36028797018963968)\<rparr> = Num (1999 / 2)
   \<and> (8796972631510221 / 8796093022208 - 5404319552844595 / 18014398509481984
        - 3602879701896397 / 18014398509481984 - 3602879701896397 / 36028797018963968 :: rat)
       \<noteq> 1999 / 2"
  by (simp add: spendingMoney_def jsSub_def round_eval)

text \<open>
  C6, as stated, fails: the figure shown is not always the difference. Where income
  and expenses are both Infinity (one entry with the amount "Infinity" in each) the
  difference is NaN, and both views show $0.00.
\<close>

theorem infinite_totals_counterexample:
  "calcTotals
      \<lparr>income = [sampleEntry ''2024-01-05'' (JString ''Infinity'')],
        expenses = [sampleEntry ''2024-01-06'' (JString ''Infinity'')],
        savings = [], emergency = []\<rparr>
     = \<lparr>income = PosInfinity, expenses = PosInfinity, savings = Num 0, emergency = Num 0\<rparr>
   \<and> spendingMoney
        \<lparr>income = PosInfinity, expenses = PosInfinity, savings = Num 0, emergency = Num 0\<rparr>
       = NaN
   \<and> dashboardSpendingMoney exampleNumberText
        \<lparr>income = PosInfinity, expenses = PosInfinity, savings = Num 0, emergency = Num 0\<rparr>
       = ''$0.00''
   \<and> reportSpendingMoney exampleNumberText
        \<lparr>income = PosInfinity, expenses = PosInfinity, savings = Num 0, emergency = Num 0\<rparr>
       = ''$0.00''
   \<and> exampleNumberText NaN \<noteq> ''$0.00''"
proof -
  have "toNumber (JString ''Infinity'') = PosInfinity"
    by (simp add: string_eval)
  then show ?thesis
    by (simp add: calcTotals_def sumAmounts_def sampleEntry_def orZero_def spendingMoney_def
        dashboardSpendingMoney_def reportSpendingMoney_def fmtMoney_def jsSub_def
        exampleNumberText_def)
qed

text \<open>
  C6, amended. For every totals, the figure that \<open>Dashboard\<close> and \<open>ReportView\<close> show
  is \<open>fmtMoney\<close> of income minus expenses minus savings minus emergency, taken from
  left to right in double arithmetic: each difference of two finite numbers is rounded
  to a double. The figure is $0.00 where that value is NaN, and the text of the value
  otherwise, negative or not: nothing clamps it. Where the three differences in turn
  are doubles, the value is exactly income - expenses - savings - emergency.
\<close>

theorem spendingMoney_shown:
  "dashboardSpendingMoney toLocale totals = fmtMoney toLocale (spendingMoney totals)
   \<and> reportSpendingMoney toLocale totals = fmtMoney toLocale (spendingMoney totals)
   \<and> spendingMoney totals
       = jsSub (jsSub (jsSub (income totals) (expenses totals)) (savings totals))
           (emergency totals)
   \<and> fmtMoney toLocale (spendingMoney totals)
       = (if spendingMoney totals = NaN then ''$0.00'' else toLocale (spendingMoney totals))
   \<and> jsSub (Num x) (Num y) = roundToDouble (x - y)
   \<and> (roundToDouble (i - e) = Num (i - e) \<and> roundToDouble (i - e - s) = Num (i - e - s)
        \<and> roundToDouble (i - e - s - m) = Num (i - e - s - m)
      \<longrightarrow> spendingMoney
            \<lparr>income = Num i, expenses = Num e, savings = Num s, emergency = Num m\<rparr>
          = Num (i - e - s - m))"
  by (simp add: spendingMoney_def dashboardSpendingMoney_def reportSpendingMoney_def
      fmtMoney_def jsSub_def)

theorem spendingMoney_shown_witness:
  "roundToDouble (100 - 150) = Num (100 - 150)
   \<and> roundToDouble (100 - 150 - 50) = Num (100 - 150 - 50)
   \<and> roundToDouble (100 - 150 - 50 - 0) = Num (100 - 150 - 50 - 0)
   \<and> spendingMoney
        \<lparr>income = Num 100, expenses = Num 150, savings = Num 50, emergency = Num 0\<rparr>
       = Num (- 100)
   \<and> dashboardSpendingMoney exampleNumberText
        \<lparr>income = Num 100, expenses = Num 150, savings = Num 50, emergency = Num 0\<rparr>
       = exampleNumberText (Num (- 100))
   \<and> reportSpendingMoney exampleNumberText
        \<lparr>income = Num 100, expenses = Num 150, savings = Num 50, emergency = Num 0\<rparr>
       = exampleNumberText (Num (- 100))"
proof -
  have r: "roundToDouble (100 - 150) = Num (100 - 150)"
    "roundToDouble (100 - 150 - 50) = Num (100 - 150 - 50)"
    "roundToDouble (100 - 150 - 50 - 0) = Num (100 - 150 - 50 - 0)"
    by (simp_all add: round_eval)
  note t = spendingMoney_shown[of exampleNumberText
      "\<lparr>income = Num 100, expenses = Num 150, savings = Num 50, emergency = Num 0\<rparr>"
      0 0 100 150 50 0]
  from t r have "spendingMoney
        \<lparr>income = Num 100, expenses = Num 150, savings = Num 50, emergency = Num 0\<rparr>
       = Num (100 - 150 - 50 - 0)"
    by blast
  then have v: "spendingMoney
        \<lparr>income = Num 100, expenses = Num 150, savings = Num 50, emergency = Num 0\<rparr>
       = Num (- 100)"
    by simp
  from t have "dashboardSpendingMoney exampleNumberText
        \<lparr>income = Num 100, expenses = Num 150, savings = Num 50, emergency = Num 0\<rparr>
       = fmtMoney exampleNumberText (spendingMoney
        \<lparr>income = Num 100, expenses = Num 150, savings = Num 50, emergency = Num 0\<rparr>)"
    "reportSpendingMoney exampleNumberText
        \<lparr>income = Num 100, expenses = Num 150, savings = Num 50, emergency = Num 0\<rparr>
       = fmtMoney exampleNumberText (spendingMoney
        \<lparr>income = Num 100, expenses = Num 150, savings = Num 50, emergency = Num 0\<rparr>)"
    by blast+
  then show ?thesis
    unfolding v using r v by (simp add: fmtMoney_def)
qed

section \<open>Properties of the store, the backup and the payday start\<close>

text \<open>
  C9. Whatever the store holds under the key, \<open>load\<close> returns a value and throws
  nothing: the caller's fallback when the store refuses access, when the key is
  missing, when its text is empty and when its text does not parse, and the parsed
  value otherwise.
\<close>

theorem load_never_throws:
  "(\<exists>v. load parseJSON store key fallback = Inr v)
   \<and> (store = Refused \<longrightarrow> load parseJSON store key fallback = Inr fallback)
   \<and> (store = Items m \<and> m key = None \<longrightarrow> load parseJSON store key fallback = Inr fallback)
   \<and> (store = Items m \<and> m key = Some [] \<longrightarrow> load parseJSON store key fallback = Inr fallback)
   \<and> (store = Items m \<and> m key = Some raw \<and> parseJSON raw = None
        \<longrightarrow> load parseJSON store key fallback = Inr fallback)
   \<and> (store = Items m \<and> m key = Some raw \<and> raw \<noteq> [] \<and> parseJSON raw = Some v
        \<longrightarrow> load parseJSON store key fallback = Inr v)"
  by (cases store) (auto simp: load_def loadTry_def split: option.splits sum.splits)

theorem load_never_throws_witness:
  "load exampleParseJSON Refused ''fb_users_v1'' (JObject []) = Inr (JObject [])
   \<and> load exampleParseJSON (Items Map.empty) ''fb_users_v1'' (JObject []) = Inr (JObject [])
   \<and> load exampleParseJSON (Items [''fb_users_v1'' \<mapsto> []]) ''fb_users_v1'' (JObject [])
       = Inr (JObject [])
   \<and> load exampleParseJSON (Items [''fb_users_v1'' \<mapsto> ''{oops'']) ''fb_users_v1'' (JObject [])
       = Inr (JObject [])
   \<and> load exampleParseJSON (Items [''fb_users_v1'' \<mapsto> ''{\"name\":\"Backup\"}''])
         ''fb_users_v1'' (JObject [])
       = Inr (JObject [(''name'', JString ''Backup'')])"
proof -
  have bad: "exampleParseJSON ''{oops'' = None"
    by (simp add: exampleParseJSON_def)
  have good: "exampleParseJSON ''{\"name\":\"Backup\"}''
                = Some (JObject [(''name'', JString ''Backup'')])"
    by (simp add: exampleParseJSON_def)
  show ?thesis
    using bad good
      load_never_throws[of exampleParseJSON Refused "''fb_users_v1''" "JObject []"]
      load_never_throws[of exampleParseJSON "Items Map.empty" "''fb_users_v1''" "JObject []"
        Map.empty]
      load_never_throws[of exampleParseJSON "Items [''fb_users_v1'' \<mapsto> []]" "''fb_users_v1''"
        "JObject []" "[''fb_users_v1'' \<mapsto> []]"]
      load_never_throws[of exampleParseJSON "Items [''fb_users_v1'' \<mapsto> ''{oops'']"
        "''fb_users_v1''" "JObject []" "[''fb_users_v1'' \<mapsto> ''{oops'']" "''{oops''"]
      load_never_throws[of exampleParseJSON
        "Items [''fb_users_v1'' \<mapsto> ''{\"name\":\"Backup\"}'']" "''fb_users_v1''" "JObject []"
        "[''fb_users_v1'' \<mapsto> ''{\"name\":\"Backup\"}'']" "''{\"name\":\"Backup\"}''"
        "JObject [(''name'', JString ''Backup'')]"]
    by simp
qed




subsection \<open>The payday start\<close>

lemma matchWhole_Lit:
  "matchWhole ((Lit a, n) # rest) s \<longleftrightarrow> (\<exists>t. s = replicate n a @ t \<and> matchWhole rest t)"
proof
  assume m: "matchWhole ((Lit a, n) # rest) s"
  then have len: "length (take n s) = n" and same: "\<forall>c \<in> set (take n s). c = a"
    by (auto simp: list_all_iff)
  have "take n s = replicate n a"
    using len same by (metis replicate_eqI)
  then have "s = replicate n a @ drop n s"
    by (metis append_take_drop_id)
  with m show "\<exists>t. s = replicate n a @ t \<and> matchWhole rest t"
    by auto
next
  assume "\<exists>t. s = replicate n a @ t \<and> matchWhole rest t"
  then show "matchWhole ((Lit a, n) # rest) s"
    by (auto simp: list_all_iff)
qed

lemma paydayRegex_accepts:
  "matchWhole paydayRegex s
     \<longleftrightarrow> s = [backslash, CHR ''d'', CHR ''d'', CHR ''d'', CHR ''d'', CHR ''-'',
              backslash, CHR ''d'', CHR ''d'', CHR ''-'', backslash, CHR ''d'', CHR ''d'']"
  unfolding paydayRegex_def matchWhole_Lit
  by (auto simp: numeral_eq_Suc)

lemma wellFormedDate_starts_with_digit:
  "wellFormedDate s \<Longrightarrow> s \<noteq> [] \<and> isDigit (hd s)"
  by (cases s) (auto simp: wellFormedDate_def)

lemma paydayRegex_starts_with_backslash:
  "matchWhole paydayRegex s \<Longrightarrow> s \<noteq> [] \<and> hd s = backslash"
  by (cases s) (auto simp: paydayRegex_def)

lemma paydayRegex_rejects_dates: "wellFormedDate s \<Longrightarrow> \<not> matchWhole paydayRegex s"
proof
  assume w: "wellFormedDate s" and m: "matchWhole paydayRegex s"
  from wellFormedDate_starts_with_digit[OF w] paydayRegex_starts_with_backslash[OF m]
  have "isDigit backslash" by simp
  then show False by (simp add: isDigit_def backslash_def)
qed

lemma setPaydayStart_rejects_dates:
  "wellFormedDate s \<Longrightarrow> setPaydayStart ns trackers tracker (Some s) = trackers"
  using paydayRegex_rejects_dates[of s]
  by (cases s) (auto simp: setPaydayStart_def Let_def wellFormedDate_def)

text \<open>
  C7 fails on the code. The tracker's anchor is 2024-01-01 and the user answers the
  prompt with the well-formed date 2024-02-01: the regular expression of the handler
  does not match it (it matches only text that starts with a backslash), so
  \<open>updateTracker\<close> is not called and the anchor stays 2024-01-01.
\<close>

theorem setPaydayStart_ignores_date:
  "wellFormedDate ''2024-02-01''
   \<and> \<not> matchWhole paydayRegex ''2024-02-01''
   \<and> setPaydayStart exampleNumberText exampleTrackers exampleTracker (Some ''2024-02-01'')
       = exampleTrackers
   \<and> exampleTrackers ''fam1'' = Some exampleTracker
   \<and> getProp exampleTracker ''anchorISO'' = JString ''2024-01-01''"
  by (simp add: setPaydayStart_def paydayRegex_def wellFormedDate_def isDigit_def
      backslash_def exampleTrackers_def exampleTracker_def)

end
